theory Spec2Isabelle
  imports Main "HOL-Library.Word"
begin

section \<open>Data model of the messages controller\<close>

text \<open>
  The controller \<^verbatim>\<open>messages.server.controller.js\<close> is a sequence of database calls
  glued together by callbacks. The embedding makes the document store an explicit value
  that every handler takes and returns, makes every \<^verbatim>\<open>res.status(..).send(..)\<close> a value of
  type \<open>response\<close>, and takes the collaborators that live outside the controller
  (the ObjectId helpers of the driver, the text processor, the HTML sanitizer) as the
  fields of a record \<open>lib\<close>, so that every theorem holds for whatever they compute.
  The \<^verbatim>\<open>Link\<close> header that \<^verbatim>\<open>setLinkHeader\<close> adds for pagination is left out: no
  property below reads it. Users belong to another module; a user, populated or not, is
  represented by its id. An id as a request carries it is a \<open>string\<close>.
\<close>

type_synonym oid = nat
  \<comment> \<open>an ObjectId value, as stored in a reference field\<close>

type_synonym jsstring = "16 word list"
  \<comment> \<open>a JavaScript string: a sequence of UTF-16 code units; \<open>length\<close> is \<^verbatim>\<open>.length\<close>\<close>

record message =
  m_id :: oid
  m_userFrom :: oid
  m_userTo :: oid
  m_content :: jsstring
  m_read :: bool
  m_notified :: bool
  m_created :: nat

record thread =
  t_id :: oid
  t_userFrom :: oid
  t_userTo :: oid
  t_message :: oid
  t_read :: bool
  t_updated :: nat

record store =
  messages :: "message list"
  threads :: "thread list"

text \<open>
  The collaborators required at the top of the controller. \<open>isValid\<close> is
  \<^verbatim>\<open>mongoose.Types.ObjectId.isValid\<close>, \<open>idEquals\<close> is \<^verbatim>\<open>ObjectId.prototype.equals\<close>,
  \<open>castId\<close> is the cast of a raw value to an ObjectId that the schema performs on a
  reference field; \<open>isEmpty\<close>, \<open>html\<close> and \<open>plainText\<close> are the functions of
  \<^verbatim>\<open>textProcessor\<close> (\<open>plainText\<close> with its second argument \<^verbatim>\<open>true\<close>), and
  \<open>sanitizeHtml\<close> is \<^verbatim>\<open>sanitizeHtml(_, textProcessor.sanitizeOptions)\<close>.
\<close>

record lib =
  isValid :: "string \<Rightarrow> bool"
  idEquals :: "oid \<Rightarrow> string \<Rightarrow> bool"
  castId :: "string \<Rightarrow> oid"
  isEmpty :: "jsstring \<Rightarrow> bool"
  html :: "jsstring \<Rightarrow> jsstring"
  plainText :: "jsstring \<Rightarrow> jsstring"
  sanitizeHtml :: "jsstring \<Rightarrow> jsstring"

text \<open>
  What a handler cannot decide by itself: the clock, the identifiers generated for new
  documents, which database calls fail (for whatever reason, a value that the schema
  refuses included), and which of the two callbacks that \<^verbatim>\<open>send\<close> leaves pending runs
  first.
\<close>

record world =
  now :: nat
  new_message_id :: oid
  new_thread_id :: oid
  save_fails :: bool
  update_fails :: bool
  populate_fails :: bool
  paginate_fails :: bool
  update_callback_first :: bool

datatype dberror = SaveError | UpdateError | PopulateError | PaginateError | BadQuery | LoadError

text \<open>
  The inbox projection of a thread: the populated latest message carries either its raw
  content or the derived excerpt.
\<close>

record summary =
  s_id :: oid
  s_userFrom :: oid
  s_userTo :: oid
  s_message :: oid
  s_content :: "jsstring option"
  s_excerpt :: "jsstring option"
  s_read :: bool
  s_updated :: nat

datatype payload =
    ErrorKey string
  | ErrorText string
  | ErrorOf dberror
  | MessageJson message
  | ThreadsJson "summary list"
  | NoBody

datatype response = Response nat payload

fun status :: "response \<Rightarrow> nat" where
  "status (Response c p) = c"

text \<open>
  A handler may call \<^verbatim>\<open>res.send\<close> more than once; the calls are kept in the order they
  happen and the client receives the first.
\<close>

fun client_response :: "response list \<Rightarrow> response option" where
  "client_response [] = None"
| "client_response (r # rs) = Some r"

section \<open>Database operations\<close>

text \<open>A query condition on threads: \<^verbatim>\<open>{ userTo: .., userFrom: .. }\<close>.\<close>

record thread_cond =
  c_userTo :: oid
  c_userFrom :: oid

definition thread_matches :: "thread_cond \<Rightarrow> thread \<Rightarrow> bool" where
  "thread_matches c t = (t_userTo t = c_userTo c \<and> t_userFrom t = c_userFrom c)"

text \<open>\<^verbatim>\<open>{ $or: [c1, c2, ..] }\<close>\<close>

definition or_thread :: "thread_cond list \<Rightarrow> thread \<Rightarrow> bool" where
  "or_thread cs t = list_ex (\<lambda>c. thread_matches c t) cs"

text \<open>An update without \<^verbatim>\<open>multi\<close> changes the first document that matches.\<close>

fun update_first :: "('a \<Rightarrow> bool) \<Rightarrow> ('a \<Rightarrow> 'a) \<Rightarrow> 'a list \<Rightarrow> 'a list" where
  "update_first p f [] = []"
| "update_first p f (x # xs) = (if p x then f x # xs else x # update_first p f xs)"

text \<open>The fields of a thread without its \<^verbatim>\<open>_id\<close>: the \<^verbatim>\<open>upsertData\<close> of \<^verbatim>\<open>send\<close>.\<close>

record thread_data =
  d_updated :: nat
  d_userFrom :: oid
  d_userTo :: oid
  d_message :: oid
  d_read :: bool

definition set_thread :: "thread_data \<Rightarrow> thread \<Rightarrow> thread" where
  "set_thread u t = t\<lparr>t_updated := d_updated u, t_userFrom := d_userFrom u,
     t_userTo := d_userTo u, t_message := d_message u, t_read := d_read u\<rparr>"

definition insert_thread :: "oid \<Rightarrow> thread_data \<Rightarrow> thread" where
  "insert_thread i u = \<lparr>t_id = i, t_userFrom = d_userFrom u, t_userTo = d_userTo u,
     t_message = d_message u, t_read = d_read u, t_updated = d_updated u\<rparr>"

text \<open>
  \<^verbatim>\<open>Thread.update({ $or: cs }, upsertData, { upsert: true }, callback)\<close>: the first
  matching document takes the fields of \<^verbatim>\<open>upsertData\<close> and keeps its \<^verbatim>\<open>_id\<close>; when
  none matches a new document is inserted. A failed call changes nothing.
\<close>

definition Thread_upsert ::
  "world \<Rightarrow> thread_cond list \<Rightarrow> thread_data \<Rightarrow> thread list \<Rightarrow> dberror option \<times> thread list" where
  "Thread_upsert w cs u ts =
     (if update_fails w then (Some UpdateError, ts)
      else if cs = [] then (Some BadQuery, ts)
      else if list_ex (or_thread cs) ts then (None, update_first (or_thread cs) (set_thread u) ts)
      else (None, ts @ [insert_thread (new_thread_id w) u]))"

text \<open>\<^verbatim>\<open>message.save(callback)\<close>\<close>

definition Message_save :: "world \<Rightarrow> message \<Rightarrow> store \<Rightarrow> dberror + store" where
  "Message_save w m st =
     (if save_fails w then Inl SaveError else Inr (st\<lparr>messages := messages st @ [m]\<rparr>))"

section \<open>Sending a message\<close>

text \<open>
  The request body as the Message schema reads it. Besides the recipient and the content
  a client may supply the other fields of the schema; \<^verbatim>\<open>new Message(req.body)\<close> copies
  them.
\<close>

record send_body =
  b_userTo :: string
  b_content :: jsstring
  b_userFrom :: string
  b_read :: "bool option"
  b_notified :: "bool option"
  b_created :: "nat option"

definition new_Message :: "lib \<Rightarrow> world \<Rightarrow> send_body \<Rightarrow> message" where
  "new_Message l w b =
     \<lparr>m_id = new_message_id w,
      m_userFrom = castId l (b_userFrom b),
      m_userTo = castId l (b_userTo b),
      m_content = b_content b,
      m_read = (case b_read b of Some v \<Rightarrow> v | None \<Rightarrow> False),
      m_notified = (case b_notified b of Some v \<Rightarrow> v | None \<Rightarrow> False),
      m_created = (case b_created b of Some v \<Rightarrow> v | None \<Rightarrow> now w)\<rparr>"

text \<open>The message as \<^verbatim>\<open>send\<close> saves it: lines 116 to 123 of the controller.\<close>

definition outgoing :: "lib \<Rightarrow> world \<Rightarrow> oid \<Rightarrow> send_body \<Rightarrow> message" where
  "outgoing l w user b =
     (let message = new_Message l w b;
          message = message\<lparr>m_content := html l (m_content message)\<rparr>
      in message\<lparr>m_userFrom := user, m_read := False, m_notified := False\<rparr>)"

text \<open>The thread handle built from the saved message: lines 133 to 145.\<close>

definition upsertData :: "world \<Rightarrow> message \<Rightarrow> thread_data" where
  "upsertData w message =
     \<lparr>d_updated = now w, d_userFrom = m_userFrom message, d_userTo = m_userTo message,
      d_message = m_id message, d_read = False\<rparr>"

definition either_way :: "thread_data \<Rightarrow> thread_cond list" where
  "either_way u =
     [\<lparr>c_userTo = d_userTo u, c_userFrom = d_userFrom u\<rparr>,
      \<lparr>c_userTo = d_userFrom u, c_userFrom = d_userTo u\<rparr>]"

text \<open>The callback of the upsert (lines 166 to 172) and the callback of populate (180 to 190).\<close>

definition update_callback :: "dberror option \<Rightarrow> response list" where
  "update_callback err = (case err of Some e \<Rightarrow> [Response 400 (ErrorOf e)] | None \<Rightarrow> [])"

definition populate_callback :: "world \<Rightarrow> message \<Rightarrow> response list" where
  "populate_callback w message =
     (if populate_fails w then [Response 400 (ErrorOf PopulateError)]
      else [Response 200 (MessageJson message)])"

text \<open>
  \<^verbatim>\<open>send\<close>. After the save it starts the upsert and then the populate, and returns;
  the two callbacks run later, in the order in which the database answers. The
  responses are listed in the order in which they are sent.
\<close>

definition send :: "lib \<Rightarrow> world \<Rightarrow> store \<Rightarrow> oid \<Rightarrow> send_body \<Rightarrow> response list \<times> store" where
  "send l w st user b =
     (if \<not> isValid l (b_userTo b) then ([Response 400 (ErrorKey ''invalid-id'')], st)
      else if idEquals l user (b_userTo b) then
        ([Response 403 (ErrorText ''Recepient cannot be currently authenticated user.'')], st)
      else if isEmpty l (b_content b) then
        ([Response 400 (ErrorText ''Please write a message.'')], st)
      else
        (let message = outgoing l w user b in
         case Message_save w message st of
           Inl err \<Rightarrow> ([Response 400 (ErrorOf err)], st)
         | Inr st1 \<Rightarrow>
             (let u = upsertData w message;
                  (err, ts) = Thread_upsert w (either_way u) u (threads st1);
                  of_update = update_callback err;
                  of_populate = populate_callback w message
              in (if update_callback_first w then of_update @ of_populate
                  else of_populate @ of_update,
                  st1\<lparr>threads := ts\<rparr>))))"

section \<open>The inbox\<close>

text \<open>
  \<^verbatim>\<open>Model.paginate(query, page, limit, callback, options)\<close> of the pagination plugin:
  the page numbered \<open>page\<close> (from 1) of \<open>limit\<close> documents, after sorting.
  \<^verbatim>\<open>sortBy: '-field'\<close> sorts on the field, greatest first.
\<close>

definition paginate :: "nat \<Rightarrow> nat \<Rightarrow> 'a list \<Rightarrow> 'a list" where
  "paginate page limit xs = take limit (drop ((page - 1) * limit) xs)"

definition newest_first :: "('a \<Rightarrow> nat) \<Rightarrow> 'a list \<Rightarrow> 'a list" where
  "newest_first key xs = rev (sort_key key xs)"

text \<open>
  A thread with its \<^verbatim>\<open>message\<close> path populated (\<^verbatim>\<open>select: 'content ..'\<close>).
\<close>

record populated =
  p_id :: oid
  p_userFrom :: oid
  p_userTo :: oid
  p_message :: oid
  p_content :: jsstring
  p_read :: bool
  p_updated :: nat

text \<open>Populating a reference to a message that does not exist yields \<^verbatim>\<open>null\<close>.\<close>

definition populate :: "store \<Rightarrow> thread \<Rightarrow> populated option" where
  "populate st t =
     (case find (\<lambda>m. m_id m = t_message t) (messages st) of
        None \<Rightarrow> None
      | Some m \<Rightarrow> Some \<lparr>p_id = t_id t, p_userFrom = t_userFrom t, p_userTo = t_userTo t,
          p_message = t_message t, p_content = m_content m, p_read = t_read t,
          p_updated = t_updated t\<rparr>)"

fun populate_all :: "store \<Rightarrow> thread list \<Rightarrow> populated list option" where
  "populate_all st [] = Some []"
| "populate_all st (t # ts) =
     (case populate st t of
        None \<Rightarrow> None
      | Some p \<Rightarrow> (case populate_all st ts of None \<Rightarrow> None | Some ps \<Rightarrow> Some (p # ps)))"

text \<open>The two characters appended by \<^verbatim>\<open>+ ' \<dots>'\<close>: a space and U+2026.\<close>

definition space :: "16 word" where
  "space = 0x20"

definition ellipsis :: "16 word" where
  "ellipsis = 0x2026"

text \<open>\<^verbatim>\<open>s.substring(0, 100)\<close> is \<open>take 100 s\<close>.\<close>

definition excerpt_of :: "lib \<Rightarrow> jsstring \<Rightarrow> jsstring" where
  "excerpt_of l content =
     (let excerpt = plainText l content
      in take 100 excerpt @ [space, ellipsis])"

text \<open>The body of the \<^verbatim>\<open>forEach\<close> of the inbox: lines 56 to 69.\<close>

definition clean_thread :: "lib \<Rightarrow> oid \<Rightarrow> populated \<Rightarrow> summary" where
  "clean_thread l user p =
     (let thread = \<lparr>s_id = p_id p, s_userFrom = p_userFrom p, s_userTo = p_userTo p,
            s_message = p_message p, s_content = Some (p_content p), s_excerpt = None,
            s_read = p_read p, s_updated = p_updated p\<rparr>;
          thread = thread\<lparr>s_excerpt := Some (excerpt_of l (p_content p))\<rparr>;
          thread = thread\<lparr>s_content := None\<rparr>
      in if s_userFrom thread = user then thread\<lparr>s_read := True\<rparr> else thread)"

text \<open>
  A thread whose message reference dangles makes the callback throw on
  \<^verbatim>\<open>thread.message.content\<close>: no response is sent.
\<close>

definition inbox :: "lib \<Rightarrow> world \<Rightarrow> store \<Rightarrow> oid \<Rightarrow> nat \<Rightarrow> nat \<Rightarrow> response list" where
  "inbox l w st user page limit =
     (if paginate_fails w then [Response 400 (ErrorOf PaginateError)]
      else
        (let found = filter (\<lambda>t. t_userFrom t = user \<or> t_userTo t = user) (threads st);
             page_threads = paginate page limit (newest_first t_updated found)
         in case populate_all st page_threads of
              None \<Rightarrow> []
            | Some ps \<Rightarrow> [Response 200 (ThreadsJson (map (clean_thread l user) ps))]))"

section \<open>Retrieving a thread\<close>

datatype outcome = Replied response | Next "message list"

text \<open>The query of \<^verbatim>\<open>Message.paginate\<close> in \<^verbatim>\<open>threadByUser\<close>: messages in either direction.\<close>

definition exchanged :: "oid \<Rightarrow> oid \<Rightarrow> message \<Rightarrow> bool" where
  "exchanged user other m =
     ((m_userFrom m = user \<and> m_userTo m = other) \<or> (m_userTo m = user \<and> m_userFrom m = other))"

definition retrieved :: "lib \<Rightarrow> store \<Rightarrow> oid \<Rightarrow> string \<Rightarrow> nat \<Rightarrow> nat \<Rightarrow> message list" where
  "retrieved l st user userId page limit =
     paginate page limit
       (newest_first m_created (filter (exchanged user (castId l userId)) (messages st)))"

text \<open>The condition of the read-marking update: lines 286 to 289.\<close>

definition read_cond :: "lib \<Rightarrow> oid \<Rightarrow> string \<Rightarrow> thread_cond" where
  "read_cond l user userId = \<lparr>c_userTo = user, c_userFrom = castId l userId\<rparr>"

definition mark_read :: "thread \<Rightarrow> thread" where
  "mark_read t = t\<lparr>t_read := True\<rparr>"

text \<open>\<^verbatim>\<open>Thread.update(cond, { read: true }, { multi: false }, callback)\<close>\<close>

definition Thread_update_one ::
  "world \<Rightarrow> thread_cond \<Rightarrow> thread list \<Rightarrow> dberror option \<times> thread list" where
  "Thread_update_one w c ts =
     (if update_fails w then (Some UpdateError, ts)
      else (None, update_first (thread_matches c) mark_read ts))"

text \<open>
  The waterfall of \<^verbatim>\<open>threadByUser\<close>. \<open>user\<close> is \<^verbatim>\<open>req.user\<close>, absent without a
  session. When \<^verbatim>\<open>Message.paginate\<close> fails it passes no messages and the error is
  replaced by 'Failed to load messages.'.
\<close>

definition threadByUser ::
  "lib \<Rightarrow> world \<Rightarrow> store \<Rightarrow> oid option \<Rightarrow> string \<Rightarrow> nat \<Rightarrow> nat \<Rightarrow> outcome \<times> store" where
  "threadByUser l w st req_user userId page limit =
     (case req_user of
        None \<Rightarrow> (Replied (Response 403 (ErrorKey ''forbidden'')), st)
      | Some user \<Rightarrow>
          if userId = [] \<or> \<not> isValid l userId then
            (Replied (Response 400 (ErrorKey ''invalid-id'')), st)
          else if paginate_fails w then (Replied (Response 400 (ErrorOf LoadError)), st)
          else
            (let messages = retrieved l st user userId page limit;
                 messagesCleaned =
                   map (\<lambda>message. message\<lparr>m_content := sanitizeHtml l (m_content message)\<rparr>)
                     messages
             in case messagesCleaned of
                  [] \<Rightarrow> (Next messagesCleaned, st)
                | recentMessage # older \<Rightarrow>
                    if m_userTo recentMessage = user then
                      (case Thread_update_one w (read_cond l user userId) (threads st) of
                         (Some err, ts) \<Rightarrow> (Replied (Response 400 (ErrorOf err)), st)
                       | (None, ts) \<Rightarrow> (Next messagesCleaned, st\<lparr>threads := ts\<rparr>))
                    else (Next messagesCleaned, st)))"

section \<open>Marking messages read\<close>

text \<open>A query condition on messages: \<^verbatim>\<open>{ _id: .., userTo: .. }\<close>.\<close>

record message_cond =
  q_id :: oid
  q_userTo :: oid

definition message_matches :: "message_cond \<Rightarrow> message \<Rightarrow> bool" where
  "message_matches c m = (m_id m = q_id c \<and> m_userTo m = q_userTo c)"

definition or_message :: "message_cond list \<Rightarrow> message \<Rightarrow> bool" where
  "or_message cs m = list_ex (\<lambda>c. message_matches c m) cs"

text \<open>
  \<^verbatim>\<open>Message.update({ $or: cs }, { read: true }, { multi: true }, callback)\<close>. The database
  rejects \<^verbatim>\<open>$or\<close> with an empty array.
\<close>

definition Message_update_multi ::
  "world \<Rightarrow> message_cond list \<Rightarrow> message list \<Rightarrow> dberror + message list" where
  "Message_update_multi w cs ms =
     (if update_fails w then Inl UpdateError
      else if cs = [] then Inl BadQuery
      else Inr (map (\<lambda>m. if or_message cs m then m\<lparr>m_read := True\<rparr> else m) ms))"

definition markRead :: "lib \<Rightarrow> world \<Rightarrow> store \<Rightarrow> oid \<Rightarrow> string list \<Rightarrow> response list \<times> store" where
  "markRead l w st user messageIds =
     (let messages = map (\<lambda>messageId. \<lparr>q_id = castId l messageId, q_userTo = user\<rparr>) messageIds
      in case Message_update_multi w messages (Spec2Isabelle.messages st) of
           Inl err \<Rightarrow> ([Response 400 (ErrorOf err)], st)
         | Inr ms \<Rightarrow> ([Response 200 NoBody], st\<lparr>messages := ms\<rparr>))"

section \<open>An instance of the collaborators\<close>

text \<open>
  Modelled from the spec: the text processor (\<^verbatim>\<open>text-processor.server.controller\<close> of
  the core module) is not among the sources. The spec describes its plain-text
  conversion as "strip markup, collapse whitespace" and its emptiness test as "empty
  after markup stripping". Markup is what stands between \<^verbatim>\<open><\<close> and \<^verbatim>\<open>>\<close>.
\<close>

definition lt :: "16 word" where
  "lt = 0x3C"

definition gt :: "16 word" where
  "gt = 0x3E"

fun strip_markup :: "bool \<Rightarrow> jsstring \<Rightarrow> jsstring" where
  "strip_markup in_tag [] = []"
| "strip_markup in_tag (c # cs) =
     (if in_tag then strip_markup (c \<noteq> gt) cs
      else if c = lt then strip_markup True cs
      else c # strip_markup False cs)"

definition is_space :: "16 word \<Rightarrow> bool" where
  "is_space c = (c = 0x20 \<or> c = 0x09 \<or> c = 0x0A \<or> c = 0x0D)"

fun collapse_whitespace :: "jsstring \<Rightarrow> jsstring" where
  "collapse_whitespace [] = []"
| "collapse_whitespace [c] = [if is_space c then space else c]"
| "collapse_whitespace (c # d # cs) =
     (if is_space c \<and> is_space d then collapse_whitespace (d # cs)
      else (if is_space c then space else c) # collapse_whitespace (d # cs))"

definition trim :: "jsstring \<Rightarrow> jsstring" where
  "trim s = rev (dropWhile is_space (rev (dropWhile is_space s)))"

definition plainText_spec :: "jsstring \<Rightarrow> jsstring" where
  "plainText_spec s = trim (collapse_whitespace (strip_markup False s))"

definition isEmpty_spec :: "jsstring \<Rightarrow> bool" where
  "isEmpty_spec s = (plainText_spec s = [])"

text \<open>
  ObjectIds written as 24 hexadecimal digits, the form in which a client sends them.
\<close>

definition is_hex :: "char \<Rightarrow> bool" where
  "is_hex c = (c \<in> set ''0123456789abcdefABCDEF'')"

definition hex_value :: "char \<Rightarrow> nat" where
  "hex_value c =
     (let n = of_char c :: nat
      in if n \<le> 57 then n - 48 else if 97 \<le> n then n - 87 else n - 55)"

definition hex_isValid :: "string \<Rightarrow> bool" where
  "hex_isValid s = (length s = 24 \<and> list_all is_hex s)"

definition hex_cast :: "string \<Rightarrow> oid" where
  "hex_cast s = foldl (\<lambda>a c. 16 * a + hex_value c) 0 s"

definition hex_equals :: "oid \<Rightarrow> string \<Rightarrow> bool" where
  "hex_equals i s = (hex_isValid s \<and> hex_cast s = i)"

text \<open>
  The instance used to run the handlers on concrete requests. Its sanitizers keep the
  content as it is.
\<close>

definition sample_lib :: lib where
  "sample_lib = \<lparr>isValid = hex_isValid, idEquals = hex_equals, castId = hex_cast,
     isEmpty = isEmpty_spec, html = (\<lambda>s. s), plainText = plainText_spec,
     sanitizeHtml = (\<lambda>s. s)\<rparr>"

definition ascii :: "string \<Rightarrow> jsstring" where
  "ascii s = map (\<lambda>c. of_nat (of_char c)) s"

definition alice_raw :: string where
  "alice_raw = ''0000000000000000000000a1''"

definition bob_raw :: string where
  "bob_raw = ''0000000000000000000000b2''"

definition alice :: oid where
  "alice = 161"

definition bob :: oid where
  "bob = 178"

definition empty_store :: store where
  "empty_store = \<lparr>messages = [], threads = []\<rparr>"

text \<open>A world in which every database call succeeds, at time \<open>t\<close>.\<close>

definition calm :: "nat \<Rightarrow> oid \<Rightarrow> oid \<Rightarrow> world" where
  "calm t mid tid = \<lparr>now = t, new_message_id = mid, new_thread_id = tid, save_fails = False,
     update_fails = False, populate_fails = False, paginate_fails = False,
     update_callback_first = True\<rparr>"

definition plain_body :: "string \<Rightarrow> jsstring \<Rightarrow> send_body" where
  "plain_body to content = \<lparr>b_userTo = to, b_content = content, b_userFrom = [],
     b_read = None, b_notified = None, b_created = None\<rparr>"

section \<open>Notions the properties are stated with\<close>

text \<open>A send that passes the three checks at the head of \<^verbatim>\<open>send\<close>.\<close>

definition valid_send :: "lib \<Rightarrow> oid \<Rightarrow> send_body \<Rightarrow> bool" where
  "valid_send l user b =
     (isValid l (b_userTo b) \<and> \<not> idEquals l user (b_userTo b) \<and> \<not> isEmpty l (b_content b))"

text \<open>The threads of an unordered pair of users, whichever way round they are stored.\<close>

definition between :: "oid \<Rightarrow> oid \<Rightarrow> thread \<Rightarrow> bool" where
  "between a b t =
     ((t_userFrom t = a \<and> t_userTo t = b) \<or> (t_userFrom t = b \<and> t_userTo t = a))"

definition threads_between :: "oid \<Rightarrow> oid \<Rightarrow> thread list \<Rightarrow> thread list" where
  "threads_between a b ts = filter (between a b) ts"

text \<open>The invariant of the data model: no unordered pair of users has two threads.\<close>

definition one_thread_each :: "thread list \<Rightarrow> bool" where
  "one_thread_each ts = (\<forall>a b. length (threads_between a b ts) \<le> 1)"

text \<open>A history of sends, each with its world, its sender and its body.\<close>

fun sends :: "lib \<Rightarrow> store \<Rightarrow> (world \<times> oid \<times> send_body) list \<Rightarrow> store" where
  "sends l st [] = st"
| "sends l st ((w, user, b) # rest) = sends l (snd (send l w st user b)) rest"

section \<open>Concrete requests\<close>

text \<open>A body that tries to forge the sender and the two flags.\<close>

definition forged_body :: send_body where
  "forged_body = \<lparr>b_userTo = bob_raw, b_content = ascii ''hi'', b_userFrom = bob_raw,
     b_read = Some True, b_notified = Some True, b_created = None\<rparr>"

text \<open>Bob writes to Alice, then Alice answers.\<close>

definition first_send :: store where
  "first_send = snd (send sample_lib (calm 1 11 21) empty_store bob (plain_body alice_raw (ascii ''hi'')))"

definition second_send :: store where
  "second_send = snd (send sample_lib (calm 2 12 22) first_send alice (plain_body bob_raw (ascii ''yo'')))"

text \<open>A world in which the thread update fails.\<close>

definition upsert_down :: world where
  "upsert_down = (calm 1 10 20)\<lparr>update_fails := True\<rparr>"

text \<open>Alice sends Bob a message of one hundred letters; the summary her inbox then shows.\<close>

definition long_send :: store where
  "long_send = snd (send sample_lib (calm 1 10 20) empty_store alice
     (plain_body bob_raw (replicate 100 0x61)))"

definition long_summary :: summary where
  "long_summary = \<lparr>s_id = 20, s_userFrom = alice, s_userTo = bob, s_message = 10,
     s_content = None, s_excerpt = Some (replicate 100 0x61 @ [space, ellipsis]),
     s_read = True, s_updated = 1\<rparr>"


text \<open>Alice sends Bob the spec's example, a word in bold; the summary her inbox then shows.\<close>

definition bold_send :: store where
  "bold_send = snd (send sample_lib (calm 1 10 20) empty_store alice
     (plain_body bob_raw (ascii ''<b>Hi</b>'')))"

definition bold_summary :: summary where
  "bold_summary = \<lparr>s_id = 20, s_userFrom = alice, s_userTo = bob, s_message = 10,
     s_content = None, s_excerpt = Some (ascii ''Hi'' @ [space, ellipsis]),
     s_read = True, s_updated = 1\<rparr>"

text \<open>The store after the two sends: the two messages and the single thread.\<close>

definition first_message :: message where
  "first_message = \<lparr>m_id = 11, m_userFrom = bob, m_userTo = alice, m_content = ascii ''hi'',
     m_read = False, m_notified = False, m_created = 1\<rparr>"

definition second_message :: message where
  "second_message = \<lparr>m_id = 12, m_userFrom = alice, m_userTo = bob, m_content = ascii ''yo'',
     m_read = False, m_notified = False, m_created = 2\<rparr>"

definition answered_thread :: thread where
  "answered_thread = \<lparr>t_id = 21, t_userFrom = alice, t_userTo = bob, t_message = 12,
     t_read = False, t_updated = 2\<rparr>"

text \<open>The ids of both messages, as a client writes them.\<close>

definition both_ids :: "string list" where
  "both_ids = [''00000000000000000000000b'', ''00000000000000000000000c'']"

section \<open>Properties of \<^verbatim>\<open>send\<close>\<close>

lemma send_invalid_id:
  "\<not> isValid l (b_userTo b) \<Longrightarrow>
   send l w st user b = ([Response 400 (ErrorKey ''invalid-id'')], st)"
  by (simp add: send_def)

lemma send_to_self:
  "isValid l (b_userTo b) \<Longrightarrow> idEquals l user (b_userTo b) \<Longrightarrow>
   send l w st user b =
     ([Response 403 (ErrorText ''Recepient cannot be currently authenticated user.'')], st)"
  by (simp add: send_def)

lemma send_empty_content:
  "isValid l (b_userTo b) \<Longrightarrow> \<not> idEquals l user (b_userTo b) \<Longrightarrow> isEmpty l (b_content b) \<Longrightarrow>
   send l w st user b = ([Response 400 (ErrorText ''Please write a message.'')], st)"
  by (simp add: send_def)

lemma send_saved:
  assumes "valid_send l user b" and "\<not> save_fails w"
  shows "send l w st user b =
     (let message = outgoing l w user b;
          u = upsertData w message;
          r = Thread_upsert w (either_way u) u (threads st)
      in (if update_callback_first w then update_callback (fst r) @ populate_callback w message
          else populate_callback w message @ update_callback (fst r),
          \<lparr>messages = messages st @ [message], threads = snd r\<rparr>))"
  using assms
  by (simp add: send_def valid_send_def Message_save_def Let_def split: prod.splits)

lemma outgoing_fields:
  "m_userFrom (outgoing l w user b) = user"
  "m_userTo (outgoing l w user b) = castId l (b_userTo b)"
  "m_id (outgoing l w user b) = new_message_id w"
  "m_read (outgoing l w user b) = False"
  "m_notified (outgoing l w user b) = False"
  "m_content (outgoing l w user b) = html l (b_content b)"
  by (simp_all add: outgoing_def new_Message_def Let_def)

lemma or_thread_either_way:
  "or_thread (either_way u) t = between (d_userFrom u) (d_userTo u) t"
  by (auto simp: or_thread_def either_way_def thread_matches_def between_def)

lemma filter_update_first:
  assumes "\<And>x. p x \<Longrightarrow> p (f x)"
  shows "filter p (update_first p f xs) =
     (case filter p xs of [] \<Rightarrow> [] | y # ys \<Rightarrow> f y # ys)"
  using assms by (induction xs) (auto split: list.splits)

lemma filter_update_first_other:
  assumes "\<And>x. p x \<Longrightarrow> \<not> q x \<and> \<not> q (f x)"
  shows "filter q (update_first p f xs) = filter q xs"
  using assms by (induction xs) auto

lemma set_thread_insert: "set_thread u t = insert_thread (t_id t) u"
  by (simp add: set_thread_def insert_thread_def)

lemma between_insert_thread: "between (d_userFrom u) (d_userTo u) (insert_thread i u)"
  by (simp add: between_def insert_thread_def)

lemma upsert_between:
  assumes "\<not> update_fails w" and "length (threads_between (d_userFrom u) (d_userTo u) ts) \<le> 1"
  shows "\<exists>i. threads_between (d_userFrom u) (d_userTo u)
            (snd (Thread_upsert w (either_way u) u ts)) = [insert_thread i u]"
proof (cases "list_ex (between (d_userFrom u) (d_userTo u)) ts")
  case True
  let ?p = "between (d_userFrom u) (d_userTo u)"
  from True have "filter ?p ts \<noteq> []"
    by (simp add: list_ex_iff filter_empty_conv)
  with assms(2) obtain y where y: "filter ?p ts = [y]"
    by (cases "filter ?p ts") (auto simp: threads_between_def)
  have "filter ?p (update_first ?p (set_thread u) ts) = [set_thread u y]"
    using filter_update_first [of ?p "set_thread u" ts] y
    by (simp add: set_thread_insert between_insert_thread)
  moreover have "or_thread (either_way u) = ?p"
    by (rule ext) (rule or_thread_either_way)
  ultimately show ?thesis
    using True assms(1)
    by (auto simp: Thread_upsert_def threads_between_def either_way_def set_thread_insert)
next
  case False
  let ?p = "between (d_userFrom u) (d_userTo u)"
  from False have "filter ?p ts = []"
    by (simp add: list_ex_iff filter_empty_conv)
  moreover have "or_thread (either_way u) = ?p"
    by (rule ext) (rule or_thread_either_way)
  ultimately show ?thesis
    using False assms(1)
    by (auto simp: Thread_upsert_def threads_between_def either_way_def between_insert_thread)
qed

lemma upsertData_fields:
  "d_userFrom (upsertData w m) = m_userFrom m"
  "d_userTo (upsertData w m) = m_userTo m"
  "d_message (upsertData w m) = m_id m"
  "d_read (upsertData w m) = False"
  "d_updated (upsertData w m) = now w"
  by (simp_all add: upsertData_def)

lemma threads_after_send:
  assumes "valid_send l user b" and "\<not> save_fails w" and "\<not> update_fails w"
    and "length (threads_between user (castId l (b_userTo b)) (threads st)) \<le> 1"
  shows "\<exists>i. threads_between user (castId l (b_userTo b)) (threads (snd (send l w st user b))) =
     [insert_thread i (upsertData w (outgoing l w user b))]"
proof -
  let ?u = "upsertData w (outgoing l w user b)"
  have sender: "d_userFrom ?u = user" and recipient: "d_userTo ?u = castId l (b_userTo b)"
    by (simp_all add: upsertData_fields outgoing_fields)
  have "length (threads_between (d_userFrom ?u) (d_userTo ?u) (threads st)) \<le> 1"
    using assms(4) by (simp only: sender recipient)
  from upsert_between [OF assms(3) this]
  obtain i where "threads_between (d_userFrom ?u) (d_userTo ?u)
      (snd (Thread_upsert w (either_way ?u) ?u (threads st))) = [insert_thread i ?u]" ..
  then have "threads_between user (castId l (b_userTo b))
      (snd (Thread_upsert w (either_way ?u) ?u (threads st))) = [insert_thread i ?u]"
    by (simp only: sender recipient)
  moreover have "threads (snd (send l w st user b)) =
      snd (Thread_upsert w (either_way ?u) ?u (threads st))"
    using assms(1,2) by (simp add: send_saved Let_def)
  ultimately show ?thesis by auto
qed

lemma between_commute: "between a b t = between b a t"
  by (auto simp: between_def)

subsection \<open>Validation\<close>

text \<open>
  C5. A send whose recipient id is well formed and equals the sender's id is answered
  with 403, and the store is left as it was: no message is created.
\<close>

theorem self_send_forbidden:
  assumes "isValid l (b_userTo b)" and "idEquals l user (b_userTo b)"
  shows "send l w st user b =
     ([Response 403 (ErrorText ''Recepient cannot be currently authenticated user.'')], st)"
  using assms by (rule send_to_self)

theorem self_send_forbidden_witness:
  "isValid sample_lib (b_userTo (plain_body alice_raw (ascii ''hi''))) \<and>
   idEquals sample_lib alice (b_userTo (plain_body alice_raw (ascii ''hi''))) \<and>
   send sample_lib (calm 1 10 20) empty_store alice (plain_body alice_raw (ascii ''hi'')) =
     ([Response 403 (ErrorText ''Recepient cannot be currently authenticated user.'')],
      empty_store)"
proof -
  have valid: "isValid sample_lib (b_userTo (plain_body alice_raw (ascii ''hi'')))"
    by code_simp
  have self: "idEquals sample_lib alice (b_userTo (plain_body alice_raw (ascii ''hi'')))"
    by code_simp
  show ?thesis
    using valid self self_send_forbidden [OF valid self] by simp
qed

text \<open>
  C7. The checks of \<^verbatim>\<open>send\<close> run in a fixed order and the first that fails decides
  the response: a malformed recipient id gives 400 (invalid-id) whatever the rest of
  the request is; a well-formed recipient id equal to the sender gives 403 whatever the
  content is; content that is empty once its markup is stripped gives 400 with "Please
  write a message.". The store is unchanged in each case.
\<close>

theorem validation_order:
  "(\<not> isValid l (b_userTo b) \<longrightarrow>
      send l w st user b = ([Response 400 (ErrorKey ''invalid-id'')], st)) \<and>
   (isValid l (b_userTo b) \<and> idEquals l user (b_userTo b) \<longrightarrow>
      send l w st user b =
        ([Response 403 (ErrorText ''Recepient cannot be currently authenticated user.'')], st)) \<and>
   (isValid l (b_userTo b) \<and> \<not> idEquals l user (b_userTo b) \<and> isEmpty l (b_content b) \<longrightarrow>
      send l w st user b = ([Response 400 (ErrorText ''Please write a message.'')], st))"
  by (simp add: send_invalid_id send_to_self send_empty_content)

theorem validation_order_witness:
  "\<not> isValid sample_lib (b_userTo (plain_body ''me'' [])) \<and>
   send sample_lib (calm 1 10 20) empty_store alice (plain_body ''me'' []) =
     ([Response 400 (ErrorKey ''invalid-id'')], empty_store) \<and>
   isValid sample_lib (b_userTo (plain_body alice_raw (ascii ''<b></b>''))) \<and>
   idEquals sample_lib alice (b_userTo (plain_body alice_raw (ascii ''<b></b>''))) \<and>
   isEmpty sample_lib (b_content (plain_body alice_raw (ascii ''<b></b>''))) \<and>
   send sample_lib (calm 1 10 20) empty_store alice (plain_body alice_raw (ascii ''<b></b>'')) =
     ([Response 403 (ErrorText ''Recepient cannot be currently authenticated user.'')],
      empty_store) \<and>
   isValid sample_lib (b_userTo (plain_body bob_raw (ascii ''<b> </b>''))) \<and>
   \<not> idEquals sample_lib alice (b_userTo (plain_body bob_raw (ascii ''<b> </b>''))) \<and>
   isEmpty sample_lib (b_content (plain_body bob_raw (ascii ''<b> </b>''))) \<and>
   send sample_lib (calm 1 10 20) empty_store alice (plain_body bob_raw (ascii ''<b> </b>'')) =
     ([Response 400 (ErrorText ''Please write a message.'')], empty_store)"
proof -
  have a: "\<not> isValid sample_lib (b_userTo (plain_body ''me'' []))"
    by code_simp
  have b: "isValid sample_lib (b_userTo (plain_body alice_raw (ascii ''<b></b>''))) \<and>
      idEquals sample_lib alice (b_userTo (plain_body alice_raw (ascii ''<b></b>'')))"
    by code_simp
  have b': "isEmpty sample_lib (b_content (plain_body alice_raw (ascii ''<b></b>'')))"
    by code_simp
  have c: "isValid sample_lib (b_userTo (plain_body bob_raw (ascii ''<b> </b>''))) \<and>
      \<not> idEquals sample_lib alice (b_userTo (plain_body bob_raw (ascii ''<b> </b>''))) \<and>
      isEmpty sample_lib (b_content (plain_body bob_raw (ascii ''<b> </b>'')))"
    by code_simp
  show ?thesis
    using a b b' c
      validation_order [of sample_lib "plain_body ''me'' []" "calm 1 10 20" empty_store alice]
      validation_order [of sample_lib "plain_body alice_raw (ascii ''<b></b>'')" "calm 1 10 20"
        empty_store alice]
      validation_order [of sample_lib "plain_body bob_raw (ascii ''<b> </b>'')" "calm 1 10 20"
        empty_store alice]
    by simp
qed

text \<open>
  C8. A send that passes the checks and whose save succeeds appends one message whose
  sender is the authenticated user and whose \<open>read\<close> and \<open>notified\<close> flags are false,
  whatever the body supplied for these fields.
\<close>

theorem sender_and_flags_not_forgeable:
  assumes "valid_send l user b" and "\<not> save_fails w"
  shows "\<exists>m. messages (snd (send l w st user b)) = messages st @ [m] \<and>
     m_userFrom m = user \<and> m_read m = False \<and> m_notified m = False"
  using assms by (simp add: send_saved Let_def outgoing_fields)

theorem sender_and_flags_not_forgeable_witness:
  "valid_send sample_lib alice forged_body \<and> \<not> save_fails (calm 1 10 20) \<and>
   (\<exists>m. messages (snd (send sample_lib (calm 1 10 20) empty_store alice forged_body)) =
      messages empty_store @ [m] \<and>
      m_userFrom m = alice \<and> m_read m = False \<and> m_notified m = False)"
proof -
  have valid: "valid_send sample_lib alice forged_body"
    by code_simp
  have saves: "\<not> save_fails (calm 1 10 20)"
    by (simp add: calm_def)
  show ?thesis
    using valid saves sender_and_flags_not_forgeable [OF valid saves] by simp
qed

subsection \<open>The thread of a pair of users\<close>

lemma between_same_pair:
  assumes "between a b t" and "between s r t"
  shows "between a b = between s r"
  using assms by (auto simp: between_def fun_eq_iff)

lemma upsert_other_pair:
  assumes "between a b \<noteq> between (d_userFrom u) (d_userTo u)"
  shows "threads_between a b (snd (Thread_upsert w (either_way u) u ts)) = threads_between a b ts"
proof -
  let ?p = "between (d_userFrom u) (d_userTo u)"
  have p: "or_thread (either_way u) = ?p"
    by (rule ext) (rule or_thread_either_way)
  have not_new: "\<not> between a b (insert_thread i u)" for i
    using assms between_same_pair [OF _ between_insert_thread [of u i], of a b] by blast
  have "filter (between a b) (update_first ?p (set_thread u) ts) = filter (between a b) ts"
  proof (rule filter_update_first_other)
    fix x
    assume "?p x"
    then have "\<not> between a b x"
      using assms between_same_pair [of a b x] by blast
    then show "\<not> between a b x \<and> \<not> between a b (set_thread u x)"
      using not_new by (simp add: set_thread_insert)
  qed
  then show ?thesis
    using not_new by (simp add: Thread_upsert_def threads_between_def p)
qed

lemma send_threads:
  "threads (snd (send l w st user b)) = threads st \<or>
   (valid_send l user b \<and> \<not> save_fails w \<and>
    threads (snd (send l w st user b)) =
      snd (Thread_upsert w (either_way (upsertData w (outgoing l w user b)))
        (upsertData w (outgoing l w user b)) (threads st)))"
  by (simp add: send_def valid_send_def Message_save_def Let_def split: prod.splits)

lemma send_keeps_one_thread_each:
  assumes "one_thread_each (threads st)"
  shows "one_thread_each (threads (snd (send l w st user b)))"
proof -
  let ?u = "upsertData w (outgoing l w user b)"
  let ?ts = "snd (Thread_upsert w (either_way ?u) ?u (threads st))"
  have "length (threads_between x y ?ts) \<le> 1" for x y
  proof (cases "between x y = between (d_userFrom ?u) (d_userTo ?u)")
    case False
    from upsert_other_pair [OF this] assms show ?thesis
      by (simp add: one_thread_each_def)
  next
    case True
    show ?thesis
    proof (cases "update_fails w")
      case True
      with assms show ?thesis
        by (simp add: Thread_upsert_def one_thread_each_def)
    next
      case False
      from assms have "length (threads_between (d_userFrom ?u) (d_userTo ?u) (threads st)) \<le> 1"
        by (simp add: one_thread_each_def)
      from upsert_between [OF False this] True show ?thesis
        by (auto simp: threads_between_def)
    qed
  qed
  then have "one_thread_each ?ts"
    by (simp add: one_thread_each_def)
  with assms send_threads [of l w st user b] show ?thesis
    by auto
qed


text \<open>Every store that a history of sends builds from the empty store has the invariant.\<close>

lemma sends_keep_one_thread_each:
  "one_thread_each (threads st) \<Longrightarrow> one_thread_each (threads (sends l st history))"
  by (induction l st history rule: sends.induct) (simp_all add: send_keeps_one_thread_each)

lemma reachable_one_thread_each: "one_thread_each (threads (sends l empty_store history))"
  by (rule sends_keep_one_thread_each) (simp add: one_thread_each_def empty_store_def threads_between_def)

text \<open>
  C3. After a send whose upsert succeeds, exactly one thread exists for the unordered
  pair of sender and recipient, whether the pair had no thread before or one thread in
  either orientation.
\<close>

theorem one_thread_per_pair:
  assumes "valid_send l user b" and "\<not> save_fails w" and "\<not> update_fails w"
    and "length (threads_between user (castId l (b_userTo b)) (threads st)) \<le> 1"
  shows "length (threads_between user (castId l (b_userTo b))
           (threads (snd (send l w st user b)))) = 1 \<and>
         length (threads_between (castId l (b_userTo b)) user
           (threads (snd (send l w st user b)))) = 1"
proof -
  from threads_after_send [OF assms]
  have one: "length (threads_between user (castId l (b_userTo b))
      (threads (snd (send l w st user b)))) = 1"
    by auto
  have "threads_between (castId l (b_userTo b)) user ts =
      threads_between user (castId l (b_userTo b)) ts" for ts
    unfolding threads_between_def
    by (rule filter_cong) (simp_all add: between_commute)
  with one show ?thesis by simp
qed

theorem one_thread_per_pair_witness:
  "valid_send sample_lib alice (plain_body bob_raw (ascii ''yo'')) \<and>
   \<not> save_fails (calm 2 12 22) \<and> \<not> update_fails (calm 2 12 22) \<and>
   length (threads_between alice (castId sample_lib (b_userTo (plain_body bob_raw (ascii ''yo''))))
     (threads first_send)) \<le> 1 \<and>
   map t_userFrom (threads first_send) = [bob] \<and>
   length (threads_between alice (castId sample_lib (b_userTo (plain_body bob_raw (ascii ''yo''))))
     (threads (snd (send sample_lib (calm 2 12 22) first_send alice
        (plain_body bob_raw (ascii ''yo'')))))) = 1"
proof -
  have valid: "valid_send sample_lib alice (plain_body bob_raw (ascii ''yo''))"
    by code_simp
  have saves: "\<not> save_fails (calm 2 12 22)" and updates: "\<not> update_fails (calm 2 12 22)"
    by (simp_all add: calm_def)
  have before: "length (threads_between alice
      (castId sample_lib (b_userTo (plain_body bob_raw (ascii ''yo'')))) (threads first_send)) \<le> 1"
    by code_simp
  have old: "map t_userFrom (threads first_send) = [bob]"
    by code_simp
  show ?thesis
    using valid saves updates before old one_thread_per_pair [OF valid saves updates before]
    by simp
qed

text \<open>
  C9. After a successful upsert the thread of the pair carries the fields of the message
  just sent, the latest of the conversation: its \<open>userFrom\<close> is that message's sender,
  its \<open>userTo\<close> that message's recipient, it points to that message, is unread and
  dated now. The condition of the read-marking update of the thread retrieval, issued by
  the recipient for the sender's id, matches it.
\<close>

theorem thread_tracks_latest_message:
  assumes "valid_send l user b" and "\<not> save_fails w" and "\<not> update_fails w"
    and "length (threads_between user (castId l (b_userTo b)) (threads st)) \<le> 1"
  shows "\<exists>t m. threads_between user (castId l (b_userTo b))
             (threads (snd (send l w st user b))) = [t] \<and>
           last (messages (snd (send l w st user b))) = m \<and>
           m_userFrom m = user \<and> m_userTo m = castId l (b_userTo b) \<and>
           t_userFrom t = m_userFrom m \<and> t_userTo t = m_userTo m \<and> t_message t = m_id m \<and>
           t_read t = False \<and> t_updated t = now w \<and>
           (\<forall>userId. castId l userId = user \<longrightarrow>
              thread_matches (read_cond l (castId l (b_userTo b)) userId) t)"
proof -
  let ?m = "outgoing l w user b"
  from threads_after_send [OF assms]
  obtain i where t: "threads_between user (castId l (b_userTo b))
      (threads (snd (send l w st user b))) = [insert_thread i (upsertData w ?m)]" ..
  have m: "last (messages (snd (send l w st user b))) = ?m"
    using assms(1,2) by (simp add: send_saved Let_def)
  show ?thesis
    unfolding t m
    by (simp add: insert_thread_def upsertData_fields outgoing_fields thread_matches_def
        read_cond_def)
qed

theorem thread_tracks_latest_message_witness:
  "valid_send sample_lib alice (plain_body bob_raw (ascii ''yo'')) \<and>
   \<not> save_fails (calm 2 12 22) \<and> \<not> update_fails (calm 2 12 22) \<and>
   length (threads_between alice (castId sample_lib (b_userTo (plain_body bob_raw (ascii ''yo''))))
     (threads first_send)) \<le> 1 \<and>
   castId sample_lib alice_raw = alice \<and>
   (\<exists>t m. threads_between alice (castId sample_lib (b_userTo (plain_body bob_raw (ascii ''yo''))))
             (threads (snd (send sample_lib (calm 2 12 22) first_send alice
                (plain_body bob_raw (ascii ''yo''))))) = [t] \<and>
           last (messages (snd (send sample_lib (calm 2 12 22) first_send alice
                (plain_body bob_raw (ascii ''yo''))))) = m \<and>
           t_userFrom t = m_userFrom m \<and> t_userTo t = m_userTo m \<and> t_message t = m_id m \<and>
           thread_matches (read_cond sample_lib
             (castId sample_lib (b_userTo (plain_body bob_raw (ascii ''yo'')))) alice_raw) t)"
proof -
  have valid: "valid_send sample_lib alice (plain_body bob_raw (ascii ''yo''))"
    by code_simp
  have saves: "\<not> save_fails (calm 2 12 22)" and updates: "\<not> update_fails (calm 2 12 22)"
    by (simp_all add: calm_def)
  have before: "length (threads_between alice
      (castId sample_lib (b_userTo (plain_body bob_raw (ascii ''yo'')))) (threads first_send)) \<le> 1"
    by code_simp
  have cast: "castId sample_lib alice_raw = alice"
    by code_simp
  show ?thesis
    using valid saves updates before cast
      thread_tracks_latest_message [OF valid saves updates before]
    by auto
qed

subsection \<open>A failed upsert\<close>

text \<open>
  C1, as amended. When the thread update fails after the message has been saved, the
  message stays saved and the threads are unchanged, and the callback of the update
  sends a 400 response carrying the error. The client receives that 400 when the
  callback of the update runs before the callback of populate, and the response of
  populate (the saved message, when populate succeeds) when populate's callback runs
  first.
\<close>

theorem upsert_failure_surfaces:
  assumes "valid_send l user b" and "\<not> save_fails w" and "update_fails w"
  shows "messages (snd (send l w st user b)) = messages st @ [outgoing l w user b] \<and>
         threads (snd (send l w st user b)) = threads st \<and>
         Response 400 (ErrorOf UpdateError) \<in> set (fst (send l w st user b)) \<and>
         client_response (fst (send l w st user b)) =
           Some (if update_callback_first w then Response 400 (ErrorOf UpdateError)
                 else if populate_fails w then Response 400 (ErrorOf PopulateError)
                 else Response 200 (MessageJson (outgoing l w user b)))"
  using assms
  by (simp add: send_saved Let_def Thread_upsert_def update_callback_def populate_callback_def)

theorem upsert_failure_surfaces_witness:
  "valid_send sample_lib alice (plain_body bob_raw (ascii ''hello'')) \<and>
   \<not> save_fails upsert_down \<and> update_fails upsert_down \<and>
   messages (snd (send sample_lib upsert_down empty_store alice
      (plain_body bob_raw (ascii ''hello'')))) =
     messages empty_store @
       [outgoing sample_lib upsert_down alice (plain_body bob_raw (ascii ''hello''))] \<and>
   Response 400 (ErrorOf UpdateError) \<in>
     set (fst (send sample_lib upsert_down empty_store alice
        (plain_body bob_raw (ascii ''hello''))))"
proof -
  have valid: "valid_send sample_lib alice (plain_body bob_raw (ascii ''hello''))"
    by code_simp
  have saves: "\<not> save_fails upsert_down" and fails: "update_fails upsert_down"
    by (simp_all add: upsert_down_def calm_def)
  show ?thesis
    using valid saves fails upsert_failure_surfaces [OF valid saves fails] by simp
qed

text \<open>
  The claim as stated fails: with the callback of the failed update running first, the
  sender of a saved message receives the 400 of the update.
\<close>

theorem upsert_failure_counterexample:
  "valid_send sample_lib alice (plain_body bob_raw (ascii ''hello'')) \<and>
   update_fails upsert_down \<and>
   map m_id (messages (snd (send sample_lib upsert_down empty_store alice
      (plain_body bob_raw (ascii ''hello''))))) = [10] \<and>
   client_response (fst (send sample_lib upsert_down empty_store alice
      (plain_body bob_raw (ascii ''hello'')))) = Some (Response 400 (ErrorOf UpdateError))"
  by code_simp

section \<open>Properties of the inbox\<close>

lemma length_excerpt_of: "length (excerpt_of l c) = min (length (plainText l c)) 100 + 2"
  by (simp add: excerpt_of_def Let_def)

lemma clean_thread_fields:
  "s_excerpt (clean_thread l user p) = Some (excerpt_of l (p_content p))"
  "s_content (clean_thread l user p) = None"
  "s_message (clean_thread l user p) = p_message p"
  "s_read (clean_thread l user p) = (p_read p \<or> p_userFrom p = user)"
  by (auto simp: clean_thread_def Let_def)

lemma populate_message:
  assumes "populate st t = Some p"
  shows "\<exists>m. m \<in> set (messages st) \<and> m_id m = p_message p \<and> m_content m = p_content p"
proof -
  from assms obtain m where f: "find (\<lambda>m. m_id m = t_message t) (messages st) = Some m"
    and p: "p_message p = t_message t" "p_content p = m_content m"
    by (auto simp: populate_def split: option.splits)
  from f have "m \<in> set (messages st) \<and> m_id m = t_message t"
    by (auto simp: find_Some_iff)
  with p show ?thesis by auto
qed

lemma populate_all_member:
  "populate_all st ts = Some ps \<Longrightarrow> p \<in> set ps \<Longrightarrow> \<exists>t. t \<in> set ts \<and> populate st t = Some p"
proof (induction ts arbitrary: ps)
  case Nil
  then show ?case by simp
next
  case (Cons t ts)
  from Cons.prems(1) obtain q qs where q: "populate st t = Some q"
    and qs: "populate_all st ts = Some qs" and ps: "ps = q # qs"
    by (auto split: option.splits)
  show ?case
  proof (cases "p = q")
    case True
    with q show ?thesis by auto
  next
    case False
    with Cons.prems(2) ps have "p \<in> set qs" by simp
    from Cons.IH [OF qs this] show ?thesis by auto
  qed
qed

lemma inbox_summaries:
  assumes "inbox l w st user page limit = [Response c (ThreadsJson ss)]" and "s \<in> set ss"
  shows "\<exists>p t. s = clean_thread l user p \<and> populate st t = Some p"
proof -
  from assms(1) obtain ps where ps: "populate_all st
      (paginate page limit (newest_first t_updated
        (filter (\<lambda>t. t_userFrom t = user \<or> t_userTo t = user) (threads st)))) = Some ps"
    and ss: "ss = map (clean_thread l user) ps"
    by (auto simp: inbox_def Let_def split: if_splits option.splits)
  from ss assms(2) obtain p where p: "p \<in> set ps" "s = clean_thread l user p"
    by auto
  from populate_all_member [OF ps p(1)] p(2) show ?thesis by blast
qed

text \<open>
  The plain-text conversion as the spec describes it leaves no \<^verbatim>\<open><\<close>, so nothing in
  its result opens a tag; neither of the two appended characters is one.
\<close>

lemma strip_markup_no_lt: "lt \<notin> set (strip_markup in_tag s)"
  by (induction s arbitrary: in_tag) auto

lemma set_collapse_whitespace: "set (collapse_whitespace s) \<subseteq> set s \<union> {space}"
  by (induction s rule: collapse_whitespace.induct) auto

lemma set_trim: "set (trim s) \<subseteq> set s"
proof -
  have "set (dropWhile is_space (rev (dropWhile is_space s))) \<subseteq> set (dropWhile is_space s)"
    using set_dropWhileD [of _ is_space "rev (dropWhile is_space s)"] by auto
  moreover have "set (dropWhile is_space s) \<subseteq> set s"
    using set_dropWhileD [of _ is_space s] by auto
  ultimately show ?thesis
    by (simp add: trim_def)
qed

lemma lt_not_appended: "lt \<noteq> space" "lt \<noteq> ellipsis"
  by (simp_all add: lt_def space_def ellipsis_def)

lemma plainText_spec_no_lt: "lt \<notin> set (plainText_spec s)"
proof
  assume "lt \<in> set (plainText_spec s)"
  then have "lt \<in> set (collapse_whitespace (strip_markup False s))"
    using set_trim unfolding plainText_spec_def by blast
  then have "lt \<in> set (strip_markup False s) \<union> {space}"
    using set_collapse_whitespace by blast
  then show False
    by (simp add: strip_markup_no_lt lt_not_appended)
qed

lemma excerpt_no_lt:
  assumes "plainText l = plainText_spec"
  shows "lt \<notin> set (excerpt_of l c)"
proof -
  have "lt \<notin> set (take 100 (plainText_spec c))"
    using plainText_spec_no_lt [of c] set_take_subset [of 100 "plainText_spec c"] by blast
  then show ?thesis
    using assms by (simp add: excerpt_of_def Let_def lt_not_appended)
qed

text \<open>
  C2, as amended. Every thread summary that the inbox returns carries an excerpt of at
  most 102 characters, the trailing space and ellipsis included: the first 100
  characters of the plain text of the latest message's content, then the two appended
  characters. The excerpt contains no raw markup: with the plain-text conversion the
  spec describes, it holds no \<^verbatim>\<open><\<close>. The raw content field is gone from the summary.
\<close>

theorem inbox_excerpt:
  assumes "inbox l w st user page limit = [Response c (ThreadsJson ss)]" and "s \<in> set ss"
  shows "\<exists>m e. m \<in> set (messages st) \<and> m_id m = s_message s \<and>
           s_excerpt s = Some e \<and>
           e = take 100 (plainText l (m_content m)) @ [space, ellipsis] \<and>
           length e \<le> 102 \<and>
           (plainText l = plainText_spec \<longrightarrow> lt \<notin> set e) \<and>
           s_content s = None"
proof -
  from inbox_summaries [OF assms] obtain p t
    where s: "s = clean_thread l user p" and p: "populate st t = Some p"
    by blast
  from populate_message [OF p] obtain m
    where m: "m \<in> set (messages st)" "m_id m = p_message p" "m_content m = p_content p"
    by blast
  have "length (excerpt_of l (p_content p)) \<le> 102"
    by (simp add: length_excerpt_of)
  moreover have "excerpt_of l (p_content p) = take 100 (plainText l (p_content p)) @ [space, ellipsis]"
    by (simp add: excerpt_of_def Let_def)
  moreover have "plainText l = plainText_spec \<longrightarrow> lt \<notin> set (excerpt_of l (p_content p))"
    by (simp add: excerpt_no_lt)
  ultimately show ?thesis
    using m s
    by (intro exI [of _ m] exI [of _ "excerpt_of l (p_content p)"])
      (simp add: clean_thread_fields)
qed

theorem inbox_excerpt_witness:
  "inbox sample_lib (calm 2 0 0) bold_send alice 1 10 = [Response 200 (ThreadsJson [bold_summary])] \<and>
   bold_summary \<in> set [bold_summary] \<and>
   map m_content (messages bold_send) = [ascii ''<b>Hi</b>''] \<and>
   plainText sample_lib = plainText_spec \<and>
   (\<exists>m e. m \<in> set (messages bold_send) \<and> m_id m = s_message bold_summary \<and>
      s_excerpt bold_summary = Some e \<and>
      e = take 100 (plainText sample_lib (m_content m)) @ [space, ellipsis] \<and>
      length e \<le> 102 \<and>
      lt \<notin> set e \<and>
      s_content bold_summary = None)"
proof -
  have run: "inbox sample_lib (calm 2 0 0) bold_send alice 1 10 =
      [Response 200 (ThreadsJson [bold_summary])]"
    by code_simp
  have member: "bold_summary \<in> set [bold_summary]"
    by simp
  have stored: "map m_content (messages bold_send) = [ascii ''<b>Hi</b>'']"
    by code_simp
  have spec: "plainText sample_lib = plainText_spec"
    by (simp add: sample_lib_def)
  from inbox_excerpt [OF run member] run member stored spec show ?thesis
    by blast
qed


text \<open>
  The bound of 101 fails: for a message of one hundred letters the excerpt has 102
  characters.
\<close>

theorem inbox_excerpt_counterexample:
  "inbox sample_lib (calm 2 0 0) long_send alice 1 10 = [Response 200 (ThreadsJson [long_summary])] \<and>
   s_excerpt long_summary = Some (replicate 100 0x61 @ [space, ellipsis]) \<and>
   length (replicate 100 (0x61 :: 16 word) @ [space, ellipsis]) = 102"
  by code_simp

section \<open>Properties of the thread retrieval\<close>

lemma update_first_single:
  "\<exists>n. update_first p f xs = xs[n := f (xs ! n)]"
proof (induction xs)
  case Nil
  then show ?case by simp
next
  case (Cons x xs)
  show ?case
  proof (cases "p x")
    case True
    then have "update_first p f (x # xs) = (x # xs)[0 := f ((x # xs) ! 0)]"
      by simp
    then show ?thesis ..
  next
    case False
    from Cons.IH obtain n where "update_first p f xs = xs[n := f (xs ! n)]" ..
    with False have "update_first p f (x # xs) = (x # xs)[Suc n := f ((x # xs) ! Suc n)]"
      by simp
    then show ?thesis ..
  qed
qed

lemma update_first_filter:
  assumes "\<And>x. p x \<Longrightarrow> q x" and "\<And>x. q (f x) = q x"
  shows "filter q (update_first p f xs) = update_first p f (filter q xs)"
  using assms by (induction xs) auto

lemma read_cond_between:
  "thread_matches (read_cond l user userId) t \<Longrightarrow> between user (castId l userId) t"
  by (simp add: thread_matches_def read_cond_def between_def)

lemma between_mark_read: "between a b (mark_read t) = between a b t"
  by (simp add: between_def mark_read_def)

lemma threadByUser_store:
  assumes "userId \<noteq> []" and "isValid l userId" and "\<not> paginate_fails w"
    and "retrieved l st user userId page limit = recent # older"
  shows "snd (threadByUser l w st (Some user) userId page limit) =
     (if m_userTo recent = user \<and> \<not> update_fails w then
        st\<lparr>threads := update_first (thread_matches (read_cond l user userId)) mark_read (threads st)\<rparr>
      else st)"
  using assms by (simp add: threadByUser_def Let_def Thread_update_one_def)

text \<open>
  C4, as amended. Take a retrieval by an authenticated user whose page is not empty. If
  the most recent message of the page has the requesting user as its recipient, the
  update succeeds, and the thread between the two users is stored with the requesting
  user as \<open>userTo\<close> and the other party as \<open>userFrom\<close>, then that thread ends with
  \<open>read = true\<close>, by a write that changes a single document and no message. If the
  requesting user is not the recipient of that message, the retrieval writes nothing:
  the store is unchanged.
\<close>

theorem retrieval_marks_thread_read:
  assumes "userId \<noteq> []" and "isValid l userId" and "\<not> paginate_fails w"
    and "retrieved l st user userId page limit = recent # older"
  shows
    "(m_userTo recent = user \<and> \<not> update_fails w \<and>
      threads_between user (castId l userId) (threads st) = [t] \<and>
      t_userTo t = user \<and> t_userFrom t = castId l userId \<longrightarrow>
        threads_between user (castId l userId)
          (threads (snd (threadByUser l w st (Some user) userId page limit))) =
          [t\<lparr>t_read := True\<rparr>] \<and>
        (\<exists>n. threads (snd (threadByUser l w st (Some user) userId page limit)) =
           (threads st)[n := (threads st ! n)\<lparr>t_read := True\<rparr>]) \<and>
        messages (snd (threadByUser l w st (Some user) userId page limit)) = messages st) \<and>
     (m_userTo recent \<noteq> user \<longrightarrow>
        snd (threadByUser l w st (Some user) userId page limit) = st)"
proof (intro conjI impI)
  assume "m_userTo recent \<noteq> user"
  then show "snd (threadByUser l w st (Some user) userId page limit) = st"
    by (simp add: threadByUser_store [OF assms])
next
  assume h: "m_userTo recent = user \<and> \<not> update_fails w \<and>
      threads_between user (castId l userId) (threads st) = [t] \<and>
      t_userTo t = user \<and> t_userFrom t = castId l userId"
  let ?c = "read_cond l user userId"
  have st': "snd (threadByUser l w st (Some user) userId page limit) =
      st\<lparr>threads := update_first (thread_matches ?c) mark_read (threads st)\<rparr>"
    using h by (simp add: threadByUser_store [OF assms])
  have "filter (between user (castId l userId))
      (update_first (thread_matches ?c) mark_read (threads st)) =
      update_first (thread_matches ?c) mark_read
        (filter (between user (castId l userId)) (threads st))"
    by (rule update_first_filter) (simp_all add: read_cond_between between_mark_read)
  also have "\<dots> = update_first (thread_matches ?c) mark_read [t]"
    using h by (simp add: threads_between_def)
  also have "\<dots> = [t\<lparr>t_read := True\<rparr>]"
    using h by (simp add: thread_matches_def read_cond_def mark_read_def)
  finally show "threads_between user (castId l userId)
      (threads (snd (threadByUser l w st (Some user) userId page limit))) = [t\<lparr>t_read := True\<rparr>]"
    by (simp add: st' threads_between_def)
  from update_first_single [of "thread_matches ?c" mark_read "threads st"]
  show "\<exists>n. threads (snd (threadByUser l w st (Some user) userId page limit)) =
      (threads st)[n := (threads st ! n)\<lparr>t_read := True\<rparr>]"
    by (simp add: st' mark_read_def)
  show "messages (snd (threadByUser l w st (Some user) userId page limit)) = messages st"
    by (simp add: st')
qed

theorem retrieval_marks_thread_read_witness:
  "alice_raw \<noteq> [] \<and> isValid sample_lib alice_raw \<and> \<not> paginate_fails (calm 3 0 0) \<and>
   retrieved sample_lib second_send bob alice_raw 1 1 = second_message # [] \<and>
   m_userTo second_message = bob \<and>
   \<not> update_fails (calm 3 0 0) \<and>
   threads_between bob (castId sample_lib alice_raw) (threads second_send) = [answered_thread] \<and>
   t_userTo answered_thread = bob \<and> t_userFrom answered_thread = castId sample_lib alice_raw \<and>
   threads_between bob (castId sample_lib alice_raw)
     (threads (snd (threadByUser sample_lib (calm 3 0 0) second_send (Some bob) alice_raw 1 1))) =
     [answered_thread\<lparr>t_read := True\<rparr>] \<and>
   bob_raw \<noteq> [] \<and> isValid sample_lib bob_raw \<and>
   retrieved sample_lib second_send alice bob_raw 1 1 = second_message # [] \<and> bob \<noteq> alice \<and>
   snd (threadByUser sample_lib (calm 3 0 0) second_send (Some alice) bob_raw 1 1) = second_send"
proof -
  have a1: "alice_raw \<noteq> []" and a2: "isValid sample_lib alice_raw"
    and b1: "bob_raw \<noteq> []" and b2: "isValid sample_lib bob_raw"
    and w: "\<not> paginate_fails (calm 3 0 0)" "\<not> update_fails (calm 3 0 0)"
    by code_simp+
  have ra: "retrieved sample_lib second_send bob alice_raw 1 1 = second_message # []"
    and rb: "retrieved sample_lib second_send alice bob_raw 1 1 = second_message # []"
    and recipient: "m_userTo second_message = bob"
    by code_simp+
  have t: "threads_between bob (castId sample_lib alice_raw) (threads second_send) = [answered_thread]"
    "t_userTo answered_thread = bob" "t_userFrom answered_thread = castId sample_lib alice_raw"
    "bob \<noteq> alice"
    by code_simp+
  show ?thesis
    using a1 a2 b1 b2 w ra rb recipient t
      retrieval_marks_thread_read [OF a1 a2 w(1) ra, where t = answered_thread]
      retrieval_marks_thread_read [OF b1 b2 w(1) rb, where t = answered_thread]
    by simp
qed

text \<open>
  The claim as stated fails on a later page: Bob wrote to Alice, Alice answered, and
  Alice asks for page 2 with one message a page. The most recent message of that page is
  Bob's, addressed to Alice, but the thread is stored from Alice to Bob, the update
  matches nothing and the thread stays unread.
\<close>

theorem retrieval_counterexample:
  "bob_raw \<noteq> [] \<and> isValid sample_lib bob_raw \<and> \<not> paginate_fails (calm 3 0 0) \<and>
   retrieved sample_lib second_send alice bob_raw 2 1 = [first_message] \<and>
   m_userTo first_message = alice \<and>
   threads_between alice bob (threads second_send) = [answered_thread] \<and>
   fst (threadByUser sample_lib (calm 3 0 0) second_send (Some alice) bob_raw 2 1) =
     Next [first_message] \<and>
   threads_between alice bob
     (threads (snd (threadByUser sample_lib (calm 3 0 0) second_send (Some alice) bob_raw 2 1))) =
     [answered_thread] \<and>
   t_read answered_thread = False"
  by code_simp


section \<open>Properties of \<^verbatim>\<open>markRead\<close>\<close>

lemma or_message_recipient:
  "or_message (map (\<lambda>messageId. \<lparr>q_id = castId l messageId, q_userTo = user\<rparr>) messageIds) m \<Longrightarrow>
   m_userTo m = user"
  by (auto simp: or_message_def message_matches_def list_ex_iff)

lemma markRead_store:
  "snd (markRead l w st user messageIds) = st \<or>
   snd (markRead l w st user messageIds) =
     st\<lparr>messages :=
       map (\<lambda>m. if or_message (map (\<lambda>messageId. \<lparr>q_id = castId l messageId, q_userTo = user\<rparr>)
                    messageIds) m
                then m\<lparr>m_read := True\<rparr> else m) (messages st)\<rparr>"
  by (simp add: markRead_def Message_update_multi_def Let_def)

text \<open>
  C6. Whatever ids a \<^verbatim>\<open>markRead\<close> request submits, a message whose recipient is not
  the requesting user is left exactly as it was, at its place in the collection; no
  message is added or removed and no thread changes.
\<close>

theorem markRead_frame:
  assumes "i < length (messages st)" and "m_userTo (messages st ! i) \<noteq> user"
  shows "length (messages (snd (markRead l w st user messageIds))) = length (messages st) \<and>
         messages (snd (markRead l w st user messageIds)) ! i = messages st ! i \<and>
         threads (snd (markRead l w st user messageIds)) = threads st"
proof -
  let ?cs = "map (\<lambda>messageId. \<lparr>q_id = castId l messageId, q_userTo = user\<rparr>) messageIds"
  have "\<not> or_message ?cs (messages st ! i)"
    using assms(2) or_message_recipient [of l user messageIds "messages st ! i"] by blast
  then have "map (\<lambda>m. if or_message ?cs m then m\<lparr>m_read := True\<rparr> else m) (messages st) ! i =
      messages st ! i"
    using assms(1) by simp
  then show ?thesis
    using markRead_store [of l w st user messageIds] by auto
qed

theorem markRead_frame_witness:
  "1 < length (messages second_send) \<and> m_userTo (messages second_send ! 1) \<noteq> alice \<and>
   map (castId sample_lib) both_ids = map m_id (messages second_send) \<and>
   fst (markRead sample_lib (calm 3 0 0) second_send alice both_ids) = [Response 200 NoBody] \<and>
   map m_read (messages (snd (markRead sample_lib (calm 3 0 0) second_send alice both_ids))) =
     [True, False] \<and>
   length (messages (snd (markRead sample_lib (calm 3 0 0) second_send alice both_ids))) =
     length (messages second_send) \<and>
   messages (snd (markRead sample_lib (calm 3 0 0) second_send alice both_ids)) ! 1 =
     messages second_send ! 1"
proof -
  have i: "1 < length (messages second_send)"
    and other: "m_userTo (messages second_send ! 1) \<noteq> alice"
    by code_simp+
  have ids: "map (castId sample_lib) both_ids = map m_id (messages second_send)"
    and ok: "fst (markRead sample_lib (calm 3 0 0) second_send alice both_ids) = [Response 200 NoBody]"
    and flags: "map m_read (messages (snd (markRead sample_lib (calm 3 0 0) second_send alice
        both_ids))) = [True, False]"
    by code_simp+
  show ?thesis
    using i other ids ok flags
      markRead_frame [OF i other, of sample_lib "calm 3 0 0" both_ids]
    by simp
qed

text \<open>
  C10. A \<^verbatim>\<open>markRead\<close> request with an empty array of ids is answered with 400 and
  changes nothing.
\<close>

theorem markRead_empty:
  "map status (fst (markRead l w st user [])) = [400] \<and> snd (markRead l w st user []) = st"
  by (simp add: markRead_def Message_update_multi_def)

theorem markRead_empty_witness:
  "map status (fst (markRead sample_lib (calm 3 0 0) second_send alice [])) = [400] \<and>
   snd (markRead sample_lib (calm 3 0 0) second_send alice []) = second_send \<and>
   fst (markRead sample_lib (calm 3 0 0) second_send alice []) = [Response 400 (ErrorOf BadQuery)]"
proof -
  have "fst (markRead sample_lib (calm 3 0 0) second_send alice []) =
      [Response 400 (ErrorOf BadQuery)]"
    by (simp add: markRead_def Message_update_multi_def calm_def)
  with markRead_empty [of sample_lib "calm 3 0 0" second_send alice] show ?thesis
    by simp
qed


end
